theory Spec2Isabelle
  imports Main
begin

section \<open>Results, faults and errors\<close>

text \<open>
  A Go call either returns or stops the program with a panic (a nil dereference, a
  failed type assertion, an index or slice bound out of range). A panic is the value
  \<open>Inl Panic\<close>. The only unbounded recursion of the package is the re-entry of
  \<open>InspectValue\<close> from \<open>TypeIdent\<close>; it is bounded by fuel, and running out of it is
  \<open>Inl OutOfFuel\<close>. The Go \<open>error\<close> values that the functions return are ordinary
  results.
\<close>

datatype fault = Panic | OutOfFuel

type_synonym 'a res = "fault + 'a"

datatype error = ParseError string | ErrNotType

type_synonym addr = nat

section \<open>The container \<open>data.Data\<close>\<close>

text \<open>
  Modelled from the spec: the package \<open>data\<close> (the ordered key-value container behind
  every table of the inspector) is not part of the sources. The spec describes it as an
  ordered container with lookup by key and by position, insertion order preserved. An
  element is stored under the key of the table it is put in: a Type, Value, File, Func and
  Import under its name, a Package under its path, as the \<open>Get\<close> calls of the inspector
  show. \<open>Add\<close> appends; \<open>Get\<close> finds the element most recently added under the key.
  A nil \<open>*Data\<close> is \<open>None\<close>; \<open>Add\<close> and \<open>List\<close> through it are a nil dereference.
\<close>

type_synonym 'a data = "(string \<times> 'a) list"

definition data_Get :: "'a data \<Rightarrow> string \<Rightarrow> 'a option" where
  "data_Get d k = map_of (rev d) k"

definition data_Add :: "'a data \<Rightarrow> string \<Rightarrow> 'a \<Rightarrow> 'a data" where
  "data_Add d k a = d @ [(k, a)]"

definition data_List :: "'a data \<Rightarrow> 'a list" where
  "data_List d = map snd d"

definition data_Len :: "'a data \<Rightarrow> nat" where
  "data_Len d = length d"

definition data_Index :: "'a data \<Rightarrow> nat \<Rightarrow> 'a option" where
  "data_Index d i = (if i < length d then Some (snd (d ! i)) else None)"

section \<open>The syntax tree of \<open>go/ast\<close>\<close>

text \<open>
  Only the node kinds and fields the inspector reads. An identifier's \<open>Obj\<close> link points
  back at a declaration, which may hold the identifier itself; the link is therefore an
  index into a table of declarations (\<open>Decls\<close> below), not a subtree.
\<close>

datatype token =
    token_INT | token_FLOAT | token_IMAG | token_CHAR | token_STRING
  | token_AND | token_ADD | token_SUB | token_MUL
  | token_CONST | token_VAR | token_TYPE | token_IMPORT | token_ILLEGAL

datatype objkind = Bad | Pkg | Con | Typ | Var | Fun | Lbl

datatype objdecl = ValueSpecDecl nat | TypeSpecDecl | FuncDeclDecl | OtherDecl

datatype obj = Obj objkind objdecl

datatype expr =
    BasicLit token string
  | ParenExpr expr
  | Ident string "obj option"
  | StarExpr expr
  | UnaryExpr token expr
  | BinaryExpr expr token expr
  | CallExpr expr
  | FuncLit "field list option" "field list option"
  | CompositeLit "expr option"
  | SelectorExpr expr string
  | ArrayType "expr option" expr
  | Ellipsis
  | MapType expr expr
  | StructType
  | TypeAssertExpr expr
  | IndexExpr expr expr
and field = Field "string list" expr

datatype spec =
    ImportSpec "string option" string
  | ValueSpec "string list" "expr option" "expr list"
  | TypeSpec string

datatype decl = FuncDecl string | GenDecl token "spec list" | BadDecl

record ast_File =
  ast_Name :: string
  ast_Decls :: "decl list"

section \<open>The objects of the inspector\<close>

datatype kind = BASIC | POINTER | SLICE | ARRAY | ELIPS | MAP | STRUCT | FUNC

datatype vkind = kind_CONST | kind_VAR

text \<open>
  The payload of a Type. The Pointer, Array, Map and Struct objects are reachable only
  through the Type that owns them and are stored in it; the last component is the
  back reference \<open>typ\<close>. A Func is an object of its own.
\<close>

datatype object =
    PointerObj addr addr
  | ArrayObj "addr option" int addr
  | MapObj "addr option" "addr option" addr
  | StructObj addr
  | FuncObj addr

record Type =
  type_file :: "addr option"
  type_name :: string
  type_kind :: kind
  type_object :: "object option"

record Value =
  val_file :: "addr option"
  val_kind :: vkind
  val_name :: string
  val_typ :: "addr option"

record Func =
  func_file :: "addr option"
  func_typ :: "addr option"
  func_in :: "addr data option"
  func_out :: "addr data option"

record Import =
  imp_file :: addr
  imp_name :: string
  imp_pkg :: "addr option"

record File =
  file_p :: addr
  file_name :: string
  file_t :: "ast_File option"
  file_i :: "addr data"

record Package =
  pkg_Path :: string
  pkg_Name :: string
  pkg_Files :: "addr data"
  pkg_Types :: "addr data"
  pkg_Values :: "addr data"
  pkg_Funcs :: "addr data"
  pkg_Imports :: "addr data"
  pkg_i :: bool

text \<open>
  The heap: one growing list per kind of object, a pointer is an index into it, and two
  pointers are the same instance when they are the same index. Allocation appends.
\<close>

record world =
  packages :: "Package list"
  files :: "File list"
  imps :: "Import list"
  types :: "Type list"
  funcs :: "Func list"
  vals :: "Value list"

definition at :: "'a list \<Rightarrow> addr \<Rightarrow> 'a option" where
  "at xs a = (if a < length xs then Some (xs ! a) else None)"

text \<open>
  What the inspector takes from outside: the builtin registries and \<open>TypeToken\<close>
  (declared in files that are not part of the sources), the file enumeration
  \<open>path.Files\<close>, the parser \<open>parser.ParseFile\<close> (tree and error, as Go returns both),
  \<open>strconv.Atoi\<close>, and the declarations that \<open>Obj\<close> links point at.
\<close>

record env =
  BuiltinTypes :: "addr data"
  BuiltinValues :: "Value data"
  TypeToken :: "token \<Rightarrow> addr option"
  path_Files :: "string \<Rightarrow> string list"
  parser_ParseFile :: "string \<Rightarrow> ast_File option \<times> string option"
  strconv_Atoi :: "string \<Rightarrow> int"
  Decls :: "nat \<Rightarrow> spec option"

text \<open>\<open>f.p\<close> with the Package it points at.\<close>

definition file_pkg :: "world \<Rightarrow> addr \<Rightarrow> (addr \<times> Package) option" where
  "file_pkg w f =
     (case at (files w) f of
        None \<Rightarrow> None
      | Some F \<Rightarrow>
          (case at (packages w) (file_p F) of
             None \<Rightarrow> None
           | Some P \<Rightarrow> Some (file_p F, P)))"

definition set_pkg :: "world \<Rightarrow> addr \<Rightarrow> Package \<Rightarrow> world" where
  "set_pkg w pa P = w\<lparr>packages := (packages w)[pa := P]\<rparr>"

section \<open>Pointer types\<close>

text \<open>
  \<open>typePointer\<close>: the name \<open>*T\<close> is looked up in the Types table of the file's package;
  on a miss a POINTER Type is allocated and added to the table.
\<close>

definition typePointer :: "addr \<Rightarrow> world \<Rightarrow> addr option \<Rightarrow> (world \<times> addr option) res" where
  "typePointer f w t =
     (case t of
        None \<Rightarrow> Inl Panic
      | Some ta \<Rightarrow>
          (case at (types w) ta of
             None \<Rightarrow> Inl Panic
           | Some T \<Rightarrow>
               (let n = ''*'' @ type_name T in
                case file_pkg w f of
                  None \<Rightarrow> Inl Panic
                | Some (pa, P) \<Rightarrow>
                    (case data_Get (pkg_Types P) n of
                       Some t' \<Rightarrow> Inr (w, Some t')
                     | None \<Rightarrow>
                         (let typ = length (types w);
                              w1 = w\<lparr>types := types w @
                                     [\<lparr>type_file = type_file T,
                                       type_name = ''*'' @ type_name T,
                                       type_kind = POINTER,
                                       type_object = Some (PointerObj ta typ)\<rparr>]\<rparr>;
                              w2 = set_pkg w1 pa (P\<lparr>pkg_Types := data_Add (pkg_Types P) n typ\<rparr>)
                          in Inr (w2, Some typ))))))"

section \<open>Loading a package\<close>

text \<open>
  \<open>strings.LastIndex\<close> for a one-byte separator (\<open>-1\<close> when it does not occur), the
  slice expression \<open>s[lo:hi]\<close> (a panic, here \<open>None\<close>, when the bounds are out of order
  or out of range), and \<open>strings.Split\<close> at a one-byte separator.
\<close>

primrec LastIndex_from :: "char \<Rightarrow> string \<Rightarrow> int \<Rightarrow> int \<Rightarrow> int" where
  "LastIndex_from c [] i r = r"
| "LastIndex_from c (x # xs) i r = LastIndex_from c xs (i + 1) (if x = c then i else r)"

definition LastIndex :: "string \<Rightarrow> char \<Rightarrow> int" where
  "LastIndex s c = LastIndex_from c s 0 (- 1)"

definition slice :: "string \<Rightarrow> int \<Rightarrow> int \<Rightarrow> string option" where
  "slice s lo hi =
     (if 0 \<le> lo \<and> lo \<le> hi \<and> hi \<le> int (length s)
      then Some (take (nat (hi - lo)) (drop (nat lo) s))
      else None)"

primrec Split :: "string \<Rightarrow> char \<Rightarrow> string list" where
  "Split [] c = [[]]"
| "Split (x # xs) c =
     (if x = c then [] # Split xs c
      else (case Split xs c of [] \<Rightarrow> [[x]] | p # ps \<Rightarrow> (x # p) # ps))"

text \<open>The file name of \<open>Parse\<close>: \<open>f[strings.LastIndex(f, "/")+1 : strings.LastIndex(f, ".")]\<close>.\<close>

definition base_name :: "string \<Rightarrow> string option" where
  "base_name f = slice f (LastIndex f CHR ''/'' + 1) (LastIndex f CHR ''.'')"

text \<open>
  Modelled from the spec: \<open>NewPackage\<close> and \<open>NewFile\<close> are declared in a file that is
  not part of the sources. A new Package has its path and empty tables; a new File has
  its owning Package, its name, no tree yet and an empty Import table.
\<close>

definition NewPackage :: "string \<Rightarrow> Package" where
  "NewPackage path =
     \<lparr>pkg_Path = path, pkg_Name = [], pkg_Files = [], pkg_Types = [], pkg_Values = [],
      pkg_Funcs = [], pkg_Imports = [], pkg_i = False\<rparr>"

definition NewFile :: "addr \<Rightarrow> string \<Rightarrow> File" where
  "NewFile p n = \<lparr>file_p = p, file_name = n, file_t = None, file_i = []\<rparr>"

text \<open>
  The loop of \<open>Parse\<close> over the enumerated files. \<open>Inr (w, Some r)\<close>: the loop left the
  function with \<open>return\<close>, \<open>r\<close> being the value of \<open>err\<close> then; \<open>Inr (w, None)\<close>: the loop
  ran to its end.
\<close>

fun Parse_files :: "env \<Rightarrow> addr \<Rightarrow> world \<Rightarrow> string list \<Rightarrow> (world \<times> error option option) res" where
  "Parse_files E p w [] = Inr (w, None)"
| "Parse_files E p w (f # fs) =
     (case base_name f of
        None \<Rightarrow> Inl Panic
      | Some n \<Rightarrow>
          (case at (packages w) p of
             None \<Rightarrow> Inl Panic
           | Some P \<Rightarrow>
               (if data_Get (pkg_Files P) n \<noteq> None then Inr (w, Some None)
                else
                  (let file = length (files w);
                       w1 = w\<lparr>files := files w @ [NewFile p n]\<rparr>;
                       w2 = set_pkg w1 p (P\<lparr>pkg_Files := data_Add (pkg_Files P) n file\<rparr>);
                       (t, err) = parser_ParseFile E f;
                       w3 = w2\<lparr>files := (files w2)[file := (NewFile p n)\<lparr>file_t := t\<rparr>]\<rparr>
                   in case err of
                        Some msg \<Rightarrow> Inr (w3, Some (Some (ParseError msg)))
                      | None \<Rightarrow> Parse_files E p w3 fs))))"

definition Parse :: "env \<Rightarrow> addr \<Rightarrow> world \<Rightarrow> (world \<times> error option) res" where
  "Parse E p w =
     (case at (packages w) p of
        None \<Rightarrow> Inl Panic
      | Some P0 \<Rightarrow>
          (case Parse_files E p w (path_Files E (pkg_Path P0)) of
             Inl e \<Rightarrow> Inl e
           | Inr (w1, Some err) \<Rightarrow> Inr (w1, err)
           | Inr (w1, None) \<Rightarrow>
               (case at (packages w1) p of
                  None \<Rightarrow> Inl Panic
                | Some P \<Rightarrow>
                    (if data_Len (pkg_Files P) > 0 then
                       (case data_Index (pkg_Files P) 0 of
                          None \<Rightarrow> Inl Panic
                        | Some fa \<Rightarrow>
                            (case at (files w1) fa of
                               None \<Rightarrow> Inl Panic
                             | Some F \<Rightarrow>
                                 (case file_t F of
                                    None \<Rightarrow> Inl Panic
                                  | Some t \<Rightarrow>
                                      Inr (set_pkg w1 p (P\<lparr>pkg_Name := ast_Name t\<rparr>), None))))
                     else Inr (w1, None)))))"

section \<open>Resolving names\<close>

text \<open>
  \<open>GetType\<close>: the builtin types, the Types table of the file's package, then for a name
  with a period the Import bound to the part before it and the Types table of its
  package, parsed once when the name is not there. \<open>Import_Get\<close> is \<open>f.i.Get(alias)\<close> and
  \<open>Types_Get\<close> is \<open>p.Types.Get(n)\<close>.
\<close>

definition Import_Get :: "world \<Rightarrow> addr \<Rightarrow> string \<Rightarrow> addr option" where
  "Import_Get w f alias = Option.bind (at (files w) f) (\<lambda>F. data_Get (file_i F) alias)"

definition Types_Get :: "world \<Rightarrow> addr \<Rightarrow> string \<Rightarrow> addr option" where
  "Types_Get w p n = Option.bind (at (packages w) p) (\<lambda>P. data_Get (pkg_Types P) n)"

definition GetType :: "env \<Rightarrow> addr \<Rightarrow> world \<Rightarrow> string \<Rightarrow> (world \<times> addr option \<times> error option) res" where
  "GetType E f w name =
     (case data_Get (BuiltinTypes E) name of
        Some t \<Rightarrow> Inr (w, Some t, None)
      | None \<Rightarrow>
          (case file_pkg w f of
             None \<Rightarrow> Inl Panic
           | Some (pa, P) \<Rightarrow>
               (case data_Get (pkg_Types P) name of
                  Some t \<Rightarrow> Inr (w, Some t, None)
                | None \<Rightarrow>
                    (let parts = Split name CHR ''.'' in
                     if length parts > 1 then
                       (case Import_Get w f (parts ! 0) of
                          None \<Rightarrow> Inr (w, None, Some ErrNotType)
                        | Some imp \<Rightarrow>
                            (case Option.bind (at (imps w) imp) imp_pkg of
                               None \<Rightarrow> Inl Panic
                             | Some ip \<Rightarrow>
                                 (if at (packages w) ip = None then Inl Panic
                                  else
                                    (case Types_Get w ip (parts ! 1) of
                                       Some t \<Rightarrow> Inr (w, Some t, None)
                                     | None \<Rightarrow>
                                         (case Parse E ip w of
                                            Inl e \<Rightarrow> Inl e
                                          | Inr (w1, Some err) \<Rightarrow> Inr (w1, None, Some err)
                                          | Inr (w1, None) \<Rightarrow>
                                              (case Types_Get w1 ip (parts ! 1) of
                                                 Some t \<Rightarrow> Inr (w1, Some t, None)
                                               | None \<Rightarrow> Inr (w1, None, Some ErrNotType)))))))
                     else Inr (w, None, None)))))"

text \<open>
  The re-entry of the declaration inspector from an identifier: \<open>f.InspectValue(k, v)\<close>.
  The functions of the evaluator take it as their first argument; \<open>InspectValue\<close> below
  closes the recursion.
\<close>

type_synonym inspector = "vkind \<Rightarrow> spec \<Rightarrow> addr \<Rightarrow> world \<Rightarrow> (world \<times> error option) res"

text \<open>
  \<open>f.p.Values.Get(n).(*Value).typ\<close>: the type of the Value that the file's package holds
  under a name; \<open>None\<close> when there is no such Value (the Go expression panics then).
  The \<open>ast.Var\<close> and \<open>ast.Con\<close> cases of \<open>TypeIdent\<close>: the declaration is asserted to be a
  \<open>*ast.ValueSpec\<close> and inspected, then the Value is read from the package.
\<close>

definition value_typ :: "world \<Rightarrow> addr \<Rightarrow> string \<Rightarrow> addr option option" where
  "value_typ w f n =
     Option.bind (file_pkg w f)
       (\<lambda>(pa, P). Option.bind (data_Get (pkg_Values P) n)
          (\<lambda>va. map_option val_typ (at (vals w) va)))"

definition ident_value :: "inspector \<Rightarrow> env \<Rightarrow> addr \<Rightarrow> world \<Rightarrow> string \<Rightarrow> vkind \<Rightarrow> objdecl \<Rightarrow> (world \<times> addr option) res" where
  "ident_value I E f w Name k Decl =
     (case Decl of
        ValueSpecDecl i \<Rightarrow>
          (case Decls E i of
             Some (ValueSpec ns ty vs) \<Rightarrow>
               (case I k (ValueSpec ns ty vs) f w of
                  Inl e \<Rightarrow> Inl e
                | Inr (w1, Some err) \<Rightarrow> Inr (w1, None)
                | Inr (w1, None) \<Rightarrow>
                    (case value_typ w1 f Name of
                       None \<Rightarrow> Inl Panic
                     | Some ty \<Rightarrow> Inr (w1, ty)))
           | _ \<Rightarrow> Inl Panic)
      | _ \<Rightarrow> Inl Panic)"

definition TypeIdent :: "inspector \<Rightarrow> env \<Rightarrow> addr \<Rightarrow> world \<Rightarrow> string \<Rightarrow> obj option \<Rightarrow> (world \<times> addr option) res" where
  "TypeIdent I E f w Name ob =
     (case data_Get (BuiltinValues E) Name of
        Some v \<Rightarrow> Inr (w, val_typ v)
      | None \<Rightarrow>
          (case GetType E f w Name of
             Inl e \<Rightarrow> Inl e
           | Inr (w1, typ, err) \<Rightarrow>
               (if typ \<noteq> None then Inr (w1, typ)
                else
                  (case ob of
                     None \<Rightarrow> Inr (w1, None)
                   | Some (Obj knd dcl) \<Rightarrow>
                       (case knd of
                          Var \<Rightarrow> ident_value I E f w1 Name kind_VAR dcl
                        | Con \<Rightarrow> ident_value I E f w1 Name kind_CONST dcl
                        | Typ \<Rightarrow>
                            (case dcl of
                               TypeSpecDecl \<Rightarrow>
                                 (case Option.bind (file_pkg w1 f) (\<lambda>(pa, P). data_Get (pkg_Types P) Name) of
                                    None \<Rightarrow> Inl Panic
                                  | Some t \<Rightarrow> Inr (w1, Some t))
                             | _ \<Rightarrow> Inl Panic)
                        | Fun \<Rightarrow>
                            (case dcl of
                               FuncDeclDecl \<Rightarrow>
                                 (case Option.bind (file_pkg w1 f) (\<lambda>(pa, P). data_Get (pkg_Funcs P) Name) of
                                    None \<Rightarrow> Inl Panic
                                  | Some fa \<Rightarrow>
                                      (case at (funcs w1) fa of
                                         None \<Rightarrow> Inl Panic
                                       | Some F \<Rightarrow> Inr (w1, func_typ F)))
                             | _ \<Rightarrow> Inl Panic)
                        | _ \<Rightarrow> Inr (w1, None))))))"

section \<open>The type of an expression\<close>

fun is_BasicLit :: "expr \<Rightarrow> bool" where
  "is_BasicLit (BasicLit k v) = True"
| "is_BasicLit _ = False"

text \<open>\<open>TypeBinary\<close> removes one pair of parentheses from the left operand before it looks at it.\<close>

fun unparen :: "expr \<Rightarrow> expr" where
  "unparen (ParenExpr p) = p"
| "unparen x = x"

text \<open>
  \<open>to.Add(t)\<close> in \<open>TypeFuncParams\<close>, once for each name of the field. The container keys
  a Type by its name, so a nil Type, like a nil container, is a nil dereference.
\<close>

definition Add_type :: "world \<Rightarrow> addr data option \<Rightarrow> addr option \<Rightarrow> addr data option res" where
  "Add_type w to t =
     (case to of
        None \<Rightarrow> Inl Panic
      | Some d \<Rightarrow>
          (case Option.bind t (at (types w)) of
             None \<Rightarrow> Inl Panic
           | Some T \<Rightarrow> Inr (Some (data_Add d (type_name T) (the t)))))"

fun Add_for_names :: "world \<Rightarrow> addr data option \<Rightarrow> addr option \<Rightarrow> string list \<Rightarrow> addr data option res" where
  "Add_for_names w to t [] = Inr to"
| "Add_for_names w to t (n # ns) =
     (case Add_type w to t of
        Inl e \<Rightarrow> Inl e
      | Inr to1 \<Rightarrow> Add_for_names w to1 t ns)"

text \<open>
  \<open>TypeArray\<close> and \<open>TypeMap\<close> after their component types are evaluated: a new Type is
  allocated and named; nothing is looked up or added in the package's Types table.
\<close>

definition array_type :: "env \<Rightarrow> addr \<Rightarrow> world \<Rightarrow> expr option \<Rightarrow> addr option \<Rightarrow> (world \<times> addr option) res" where
  "array_type E f w Len elem =
     (let typ = length (types w) in
      case Option.bind elem (at (types w)) of
        None \<Rightarrow> Inl Panic
      | Some ET \<Rightarrow>
          (case Len of
             None \<Rightarrow>
               Inr (w\<lparr>types := types w @
                      [\<lparr>type_file = Some f, type_name = ''[]'' @ type_name ET, type_kind = SLICE,
                        type_object = Some (ArrayObj elem 0 typ)\<rparr>]\<rparr>, Some typ)
           | Some Ellipsis \<Rightarrow>
               Inr (w\<lparr>types := types w @
                      [\<lparr>type_file = Some f, type_name = ''...'' @ type_name ET, type_kind = ELIPS,
                        type_object = Some (ArrayObj elem 0 typ)\<rparr>]\<rparr>, Some typ)
           | Some (BasicLit k l) \<Rightarrow>
               Inr (w\<lparr>types := types w @
                      [\<lparr>type_file = Some f, type_name = ''['' @ l @ '']'' @ type_name ET,
                        type_kind = ARRAY,
                        type_object = Some (ArrayObj elem (strconv_Atoi E l) typ)\<rparr>]\<rparr>, Some typ)
           | Some _ \<Rightarrow> Inl Panic))"

definition map_type :: "addr \<Rightarrow> world \<Rightarrow> addr option \<Rightarrow> addr option \<Rightarrow> (world \<times> addr option) res" where
  "map_type f w key elem =
     (let typ = length (types w) in
      case Option.bind key (at (types w)) of
        None \<Rightarrow> Inl Panic
      | Some KT \<Rightarrow>
          (case Option.bind elem (at (types w)) of
             None \<Rightarrow> Inl Panic
           | Some ET \<Rightarrow>
               Inr (w\<lparr>types := types w @
                      [\<lparr>type_file = Some f,
                        type_name = ''map['' @ type_name KT @ '']'' @ type_name ET,
                        type_kind = MAP,
                        type_object = Some (MapObj key elem typ)\<rparr>]\<rparr>, Some typ)))"

definition TypeStruct :: "addr \<Rightarrow> world \<Rightarrow> (world \<times> addr option) res" where
  "TypeStruct f w =
     (let typ = length (types w) in
      Inr (w\<lparr>types := types w @
             [\<lparr>type_file = Some f, type_name = [], type_kind = STRUCT,
               type_object = Some (StructObj typ)\<rparr>]\<rparr>, Some typ))"

text \<open>\<open>fnc\<close> and \<open>typ\<close> of \<open>TypeFunc\<close>: a Func with nil \<open>in\<close> and \<open>out\<close>, and its FUNC Type.\<close>

definition new_func :: "addr \<Rightarrow> world \<Rightarrow> world \<times> addr" where
  "new_func f w =
     (let fnc = length (funcs w); typ = length (types w) in
      (w\<lparr>funcs := funcs w @
            [\<lparr>func_file = Some f, func_typ = Some typ, func_in = None, func_out = None\<rparr>],
         types := types w @
            [\<lparr>type_file = Some f, type_name = [], type_kind = FUNC,
              type_object = Some (FuncObj fnc)\<rparr>]\<rparr>, typ))"

text \<open>
  \<open>TypeExpr\<close>, with the bodies of \<open>TypePointer\<close>, \<open>TypeUnary\<close>, \<open>TypeBinary\<close>, \<open>TypeCall\<close>,
  \<open>TypeFunc\<close>, \<open>TypeArray\<close> and \<open>TypeMap\<close> in its cases (the methods themselves follow),
  and the loop of \<open>TypeFuncParams\<close> over the fields. \<open>TypeFunc\<close> passes the nil \<open>fnc.in\<close>
  and \<open>fnc.out\<close>, so there is no container that the loop could fill.
\<close>

function (sequential) TypeExpr :: "inspector \<Rightarrow> env \<Rightarrow> addr \<Rightarrow> world \<Rightarrow> expr \<Rightarrow> (world \<times> addr option) res"
  and TypeFuncParams_fields :: "inspector \<Rightarrow> env \<Rightarrow> addr \<Rightarrow> world \<Rightarrow> field list \<Rightarrow> addr data option \<Rightarrow> (world \<times> addr data option) res"
where
  "TypeExpr I E f w (BasicLit Kind Value) = Inr (w, TypeToken E Kind)"
| "TypeExpr I E f w (ParenExpr X) = TypeExpr I E f w X"
| "TypeExpr I E f w (Ident Name ob) = TypeIdent I E f w Name ob"
| "TypeExpr I E f w (StarExpr X) =
     (case TypeExpr I E f w X of
        Inl e \<Rightarrow> Inl e
      | Inr (w1, t) \<Rightarrow> typePointer f w1 t)"
| "TypeExpr I E f w (UnaryExpr Op X) =
     (if Op = token_AND then
        (case TypeExpr I E f w X of
           Inl e \<Rightarrow> Inl e
         | Inr (w1, t) \<Rightarrow> typePointer f w1 t)
      else Inr (w, None))"
| "TypeExpr I E f w (BinaryExpr X Op Y) =
     (if \<not> is_BasicLit (unparen X) then TypeExpr I E f w (unparen X)
      else TypeExpr I E f w Y)"
| "TypeExpr I E f w (CallExpr Fn) = TypeExpr I E f w Fn"
| "TypeExpr I E f w (FuncLit Params Results) =
     (case new_func f w of
        (w1, typ) \<Rightarrow>
          (case (case Params of
                   None \<Rightarrow> Inr (w1, None)
                 | Some fs \<Rightarrow> TypeFuncParams_fields I E f w1 fs None) of
             Inl e \<Rightarrow> Inl e
           | Inr (w2, to_in) \<Rightarrow>
               (case (case Results of
                        None \<Rightarrow> Inr (w2, None)
                      | Some fs \<Rightarrow> TypeFuncParams_fields I E f w2 fs None) of
                  Inl e \<Rightarrow> Inl e
                | Inr (w3, to_out) \<Rightarrow> Inr (w3, Some typ))))"
| "TypeExpr I E f w (CompositeLit None) = Inr (w, None)"
| "TypeExpr I E f w (CompositeLit (Some (Ident Name ob))) = TypeIdent I E f w Name ob"
| "TypeExpr I E f w (CompositeLit (Some (ArrayType Len Elt))) =
     (case TypeExpr I E f w Elt of
        Inl e \<Rightarrow> Inl e
      | Inr (w1, elem) \<Rightarrow> array_type E f w1 Len elem)"
| "TypeExpr I E f w (CompositeLit (Some (MapType Key Val))) =
     (case TypeExpr I E f w Key of
        Inl e \<Rightarrow> Inl e
      | Inr (w1, key) \<Rightarrow>
          (case TypeExpr I E f w1 Val of
             Inl e \<Rightarrow> Inl e
           | Inr (w2, elem) \<Rightarrow> map_type f w2 key elem))"
| "TypeExpr I E f w (CompositeLit (Some StructType)) = TypeStruct f w"
| "TypeExpr I E f w (CompositeLit (Some c)) = Inr (w, None)"
| "TypeExpr I E f w e = Inr (w, None)"
| "TypeFuncParams_fields I E f w [] to = Inr (w, to)"
| "TypeFuncParams_fields I E f w (Field Names T # rest) to =
     (case TypeExpr I E f w T of
        Inl e \<Rightarrow> Inl e
      | Inr (w1, t) \<Rightarrow>
          (case Add_for_names w1 to t Names of
             Inl e \<Rightarrow> Inl e
           | Inr to1 \<Rightarrow> TypeFuncParams_fields I E f w1 rest to1))"
  by pat_completeness auto

termination
  apply (relation "measure (\<lambda>v. case v of
                   Inl (I, E, f, w, e) \<Rightarrow> size e
                 | Inr (I, E, f, w, fs, to) \<Rightarrow> size_list size fs)")
  apply auto
  subgoal for X Y by (cases X) auto
  done

text \<open>The methods that \<open>TypeExpr\<close> dispatches to, each on the fields of its node.\<close>

definition TypePointer :: "inspector \<Rightarrow> env \<Rightarrow> addr \<Rightarrow> world \<Rightarrow> expr \<Rightarrow> (world \<times> addr option) res" where
  "TypePointer I E f w X =
     (case TypeExpr I E f w X of
        Inl e \<Rightarrow> Inl e
      | Inr (w1, t) \<Rightarrow> typePointer f w1 t)"

definition TypeUnary :: "inspector \<Rightarrow> env \<Rightarrow> addr \<Rightarrow> world \<Rightarrow> token \<Rightarrow> expr \<Rightarrow> (world \<times> addr option) res" where
  "TypeUnary I E f w Op X =
     (if Op = token_AND then
        (case TypeExpr I E f w X of
           Inl e \<Rightarrow> Inl e
         | Inr (w1, t) \<Rightarrow> typePointer f w1 t)
      else Inr (w, None))"

definition TypeBinary :: "inspector \<Rightarrow> env \<Rightarrow> addr \<Rightarrow> world \<Rightarrow> expr \<Rightarrow> expr \<Rightarrow> (world \<times> addr option) res" where
  "TypeBinary I E f w X Y =
     (if \<not> is_BasicLit (unparen X) then TypeExpr I E f w (unparen X)
      else TypeExpr I E f w Y)"

definition TypeCall :: "inspector \<Rightarrow> env \<Rightarrow> addr \<Rightarrow> world \<Rightarrow> expr \<Rightarrow> (world \<times> addr option) res" where
  "TypeCall I E f w Fn = TypeExpr I E f w Fn"



definition TypeArray :: "inspector \<Rightarrow> env \<Rightarrow> addr \<Rightarrow> world \<Rightarrow> expr option \<Rightarrow> expr \<Rightarrow> (world \<times> addr option) res" where
  "TypeArray I E f w Len Elt =
     (case TypeExpr I E f w Elt of
        Inl e \<Rightarrow> Inl e
      | Inr (w1, elem) \<Rightarrow> array_type E f w1 Len elem)"

definition TypeMap :: "inspector \<Rightarrow> env \<Rightarrow> addr \<Rightarrow> world \<Rightarrow> expr \<Rightarrow> expr \<Rightarrow> (world \<times> addr option) res" where
  "TypeMap I E f w Key Val =
     (case TypeExpr I E f w Key of
        Inl e \<Rightarrow> Inl e
      | Inr (w1, key) \<Rightarrow>
          (case TypeExpr I E f w1 Val of
             Inl e \<Rightarrow> Inl e
           | Inr (w2, elem) \<Rightarrow> map_type f w2 key elem))"

section \<open>Inspecting declarations\<close>

text \<open>
  \<open>InspectImports\<close>. \<open>i.Name\<close> is nil when the import is written without an alias, and
  \<open>i.Name.Name\<close> is read before anything else is done with the spec.
\<close>

fun InspectImports :: "addr \<Rightarrow> spec list \<Rightarrow> world \<Rightarrow> (world \<times> error option) res" where
  "InspectImports f [] w = Inr (w, None)"
| "InspectImports f (s # ss) w =
     (case s of
        ImportSpec alias pkgPath \<Rightarrow>
          (case alias of
             None \<Rightarrow> Inl Panic
           | Some nm \<Rightarrow>
               (case at (files w) f of
                  None \<Rightarrow> Inl Panic
                | Some F \<Rightarrow>
                    (let imp = length (imps w);
                         w1 = w\<lparr>imps := imps w @ [\<lparr>imp_file = f, imp_name = nm, imp_pkg = None\<rparr>],
                                files := (files w)[f := F\<lparr>file_i := data_Add (file_i F) nm imp\<rparr>]\<rparr>
                     in case at (packages w1) (file_p F) of
                          None \<Rightarrow> Inl Panic
                        | Some P \<Rightarrow>
                            (case data_Get (pkg_Imports P) pkgPath of
                               Some pkg \<Rightarrow>
                                 InspectImports f ss
                                   (w1\<lparr>imps := (imps w1)[imp := \<lparr>imp_file = f, imp_name = nm, imp_pkg = Some pkg\<rparr>]\<rparr>)
                             | None \<Rightarrow>
                                 (let pkg = length (packages w1);
                                      w2 = w1\<lparr>imps := (imps w1)[imp := \<lparr>imp_file = f, imp_name = nm, imp_pkg = Some pkg\<rparr>],
                                              packages := packages w1 @ [NewPackage pkgPath]\<rparr>;
                                      w3 = set_pkg w2 (file_p F) (P\<lparr>pkg_Imports := data_Add (pkg_Imports P) pkgPath pkg\<rparr>)
                                  in InspectImports f ss w3)))))
      | _ \<Rightarrow> Inl Panic)"

text \<open>
  The first loop of \<open>InspectValues\<close> over the names of a spec: \<open>names[i]\<close> stays nil for a
  name that the package's Values table has, and \<open>num\<close> is counted down for it.
\<close>

fun check_names :: "addr data \<Rightarrow> string list \<Rightarrow> nat \<Rightarrow> string option list \<times> nat" where
  "check_names V [] num = ([], num)"
| "check_names V (n # ns) num =
     (if data_Get V n = None
      then (case check_names V ns num of (names, num1) \<Rightarrow> (Some n # names, num1))
      else (case check_names V ns (num - 1) of (names, num1) \<Rightarrow> (None # names, num1)))"

text \<open>\<open>types[i] = t.(*Type)\<close> for the outputs of the callee, by position.\<close>

fun assign_types :: "addr option list \<Rightarrow> nat \<Rightarrow> addr list \<Rightarrow> addr option list res" where
  "assign_types tys i [] = Inr tys"
| "assign_types tys i (t # ts) =
     (if i < length tys then assign_types (tys[i := Some t]) (Suc i) ts else Inl Panic)"

definition call_types :: "inspector \<Rightarrow> env \<Rightarrow> addr \<Rightarrow> world \<Rightarrow> nat \<Rightarrow> expr \<Rightarrow> (world \<times> addr option list) res" where
  "call_types I E f w num e =
     (case TypeExpr I E f w e of
        Inl x \<Rightarrow> Inl x
      | Inr (w1, t) \<Rightarrow>
          (case t of
             None \<Rightarrow> Inr (w1, replicate num None)
           | Some ta \<Rightarrow>
               (case at (types w1) ta of
                  None \<Rightarrow> Inl Panic
                | Some T \<Rightarrow>
                    (if type_kind T = FUNC \<and> type_object T \<noteq> None then
                       (case type_object T of
                          Some (FuncObj fa) \<Rightarrow>
                            (case Option.bind (at (funcs w1) fa) func_out of
                               None \<Rightarrow> Inl Panic
                             | Some out \<Rightarrow>
                                 (case assign_types (replicate num None) 0 (data_List out) of
                                    Inl x \<Rightarrow> Inl x
                                  | Inr tys \<Rightarrow> Inr (w1, tys)))
                        | _ \<Rightarrow> Inl Panic)
                     else Inr (w1, replicate num None)))))"

definition set_val_typ :: "world \<Rightarrow> addr \<Rightarrow> addr option \<Rightarrow> world" where
  "set_val_typ w val t = w\<lparr>vals := (vals w)[val := (vals w ! val)\<lparr>val_typ := t\<rparr>]\<rparr>"

text \<open>
  The second loop over the names: a Value is created and added for every name that is
  not nil; its type is the declared or inherited one, or the output of the call at its
  position, or the type of its own initializer, or it stays nil.
\<close>

fun InspectValues_names :: "inspector \<Rightarrow> env \<Rightarrow> addr \<Rightarrow> vkind \<Rightarrow> addr option \<Rightarrow> addr option list \<Rightarrow> expr list \<Rightarrow> world \<Rightarrow> nat \<Rightarrow> string option list \<Rightarrow> world res" where
  "InspectValues_names I E f k typ tys Values w i [] = Inr w"
| "InspectValues_names I E f k typ tys Values w i (None # ns) =
     InspectValues_names I E f k typ tys Values w (Suc i) ns"
| "InspectValues_names I E f k typ tys Values w i (Some n # ns) =
     (case file_pkg w f of
        None \<Rightarrow> Inl Panic
      | Some (pa, P) \<Rightarrow>
          (let val = length (vals w);
               w1 = w\<lparr>vals := vals w @
                      [\<lparr>val_file = Some f, val_kind = k, val_name = n, val_typ = None\<rparr>]\<rparr>;
               w2 = set_pkg w1 pa (P\<lparr>pkg_Values := data_Add (pkg_Values P) n val\<rparr>)
           in case (if typ \<noteq> None then Inr (w2, typ)
                    else if length tys > i then Inr (w2, tys ! i)
                    else if length Values > i then TypeExpr I E f w2 (Values ! i)
                    else Inr (w2, None)) of
                Inl e \<Rightarrow> Inl e
              | Inr (w3, t) \<Rightarrow>
                  InspectValues_names I E f k typ tys Values (set_val_typ w3 val t) (Suc i) ns))"

text \<open>The loop of \<open>InspectValues\<close> over the specs, with \<open>priorType\<close>.\<close>

fun InspectValues_specs :: "inspector \<Rightarrow> env \<Rightarrow> addr \<Rightarrow> vkind \<Rightarrow> addr option \<Rightarrow> spec list \<Rightarrow> world \<Rightarrow> (world \<times> error option) res" where
  "InspectValues_specs I E f k priorType [] w = Inr (w, None)"
| "InspectValues_specs I E f k priorType (s # ss) w =
     (case s of
        ValueSpec Names Type Values \<Rightarrow>
          (case file_pkg w f of
             None \<Rightarrow> Inl Panic
           | Some (pa, P) \<Rightarrow>
               (case check_names (pkg_Values P) Names (length Names) of
                  (names, num) \<Rightarrow>
                    if num = 0 then InspectValues_specs I E f k priorType ss w
                    else
                      (case (case Type of
                               Some T \<Rightarrow>
                                 (case TypeExpr I E f w T of
                                    Inl e \<Rightarrow> Inl e
                                  | Inr (w1, t) \<Rightarrow> Inr (w1, t, t))
                             | None \<Rightarrow>
                                 Inr (w, if priorType \<noteq> None \<and> length Values = 0 then priorType else None,
                                      priorType)) of
                         Inl e \<Rightarrow> Inl e
                       | Inr (w1, typ, priorType1) \<Rightarrow>
                           (case (if typ = None \<and> num > 1 \<and> length Values = 1
                                  then call_types I E f w1 num (Values ! 0)
                                  else Inr (w1, [])) of
                              Inl e \<Rightarrow> Inl e
                            | Inr (w2, tys) \<Rightarrow>
                                (case InspectValues_names I E f k typ tys Values w2 0 names of
                                   Inl e \<Rightarrow> Inl e
                                 | Inr w3 \<Rightarrow> InspectValues_specs I E f k priorType1 ss w3)))))
      | _ \<Rightarrow> Inl Panic)"

definition InspectValues :: "inspector \<Rightarrow> env \<Rightarrow> addr \<Rightarrow> vkind \<Rightarrow> spec list \<Rightarrow> world \<Rightarrow> (world \<times> error option) res" where
  "InspectValues I E f k specs w = InspectValues_specs I E f k None specs w"

text \<open>
  \<open>InspectValue\<close>, the re-entry from \<open>TypeIdent\<close>. Each level of re-entry uses one unit of
  fuel.
\<close>

fun InspectValue :: "nat \<Rightarrow> env \<Rightarrow> vkind \<Rightarrow> spec \<Rightarrow> addr \<Rightarrow> world \<Rightarrow> (world \<times> error option) res" where
  "InspectValue 0 E k v f w = Inl OutOfFuel"
| "InspectValue (Suc n) E k v f w = InspectValues (InspectValue n E) E f k [v] w"

definition InspectType :: "addr \<Rightarrow> spec list \<Rightarrow> world \<Rightarrow> (world \<times> error option) res" where
  "InspectType f t w = Inr (w, None)"

definition InspectFunc :: "addr \<Rightarrow> decl \<Rightarrow> world \<Rightarrow> (world \<times> error option) res" where
  "InspectFunc f fn w = Inr (w, None)"

text \<open>\<open>File.Inspect\<close>: every declaration is routed; \<open>err\<close> is the result of the last one.\<close>

fun Inspect_decls :: "inspector \<Rightarrow> env \<Rightarrow> addr \<Rightarrow> decl list \<Rightarrow> error option \<Rightarrow> world \<Rightarrow> (world \<times> error option) res" where
  "Inspect_decls I E f [] err w = Inr (w, err)"
| "Inspect_decls I E f (d # ds) err w =
     (case (case d of
              FuncDecl n \<Rightarrow> InspectFunc f d w
            | GenDecl Tok Specs \<Rightarrow>
                (if Tok = token_CONST then InspectValues I E f kind_CONST Specs w
                 else if Tok = token_VAR then InspectValues I E f kind_VAR Specs w
                 else if Tok = token_TYPE then InspectType f Specs w
                 else if Tok = token_IMPORT then InspectImports f Specs w
                 else Inr (w, err))
            | BadDecl \<Rightarrow> Inr (w, err)) of
        Inl e \<Rightarrow> Inl e
      | Inr (w1, err1) \<Rightarrow> Inspect_decls I E f ds err1 w1)"

definition File_Inspect :: "inspector \<Rightarrow> env \<Rightarrow> addr \<Rightarrow> world \<Rightarrow> (world \<times> error option) res" where
  "File_Inspect I E f w =
     (case at (files w) f of
        None \<Rightarrow> Inl Panic
      | Some F \<Rightarrow>
          (case file_t F of
             None \<Rightarrow> Inr (w, None)
           | Some t \<Rightarrow> Inspect_decls I E f (ast_Decls t) None w))"

fun Inspect_files :: "inspector \<Rightarrow> env \<Rightarrow> addr list \<Rightarrow> world \<Rightarrow> (world \<times> error option) res" where
  "Inspect_files I E [] w = Inr (w, None)"
| "Inspect_files I E (f # fs) w =
     (case File_Inspect I E f w of
        Inl e \<Rightarrow> Inl e
      | Inr (w1, Some err) \<Rightarrow> Inr (w1, Some err)
      | Inr (w1, None) \<Rightarrow> Inspect_files I E fs w1)"

text \<open>
  \<open>Inspect\<close>, the entry point: the Package is returned only when \<open>Parse\<close> and the
  inspection of every file returned no error.
\<close>

definition Inspect :: "nat \<Rightarrow> env \<Rightarrow> string \<Rightarrow> world \<Rightarrow> (world \<times> addr option \<times> error option) res" where
  "Inspect n E PkgPath w =
     (let p = length (packages w);
          w0 = w\<lparr>packages := packages w @ [NewPackage PkgPath]\<rparr>
      in case Parse E p w0 of
           Inl e \<Rightarrow> Inl e
         | Inr (w1, Some err) \<Rightarrow> Inr (w1, None, Some err)
         | Inr (w1, None) \<Rightarrow>
             (case at (packages w1) p of
                None \<Rightarrow> Inl Panic
              | Some P \<Rightarrow>
                  (case Inspect_files (InspectValue n E) E (data_List (pkg_Files P)) w1 of
                     Inl e \<Rightarrow> Inl e
                   | Inr (w2, Some err) \<Rightarrow> Inr (w2, None, Some err)
                   | Inr (w2, None) \<Rightarrow>
                       (case at (packages w2) p of
                          None \<Rightarrow> Inl Panic
                        | Some P2 \<Rightarrow> Inr (set_pkg w2 p (P2\<lparr>pkg_i := True\<rparr>), Some p, None)))))"


section \<open>Growth of the heap\<close>

text \<open>
  No function of the inspector overwrites a Type or a Func: a later state holds the
  Types and Funcs of an earlier one at the same addresses.
\<close>

definition grows :: "world \<Rightarrow> world \<Rightarrow> bool" where
  "grows w w' \<longleftrightarrow> (\<exists>a. funcs w' = funcs w @ a) \<and> (\<exists>b. types w' = types w @ b)"


section \<open>An example program state\<close>

text \<open>
  The builtin types \<open>int\<close>, \<open>string\<close>, \<open>float64\<close> and \<open>bool\<close> at the addresses 0 to 3;
  a package \<open>main\<close> with two files, the first of which imports \<open>lib\<close> and \<open>pkg\<close>; the
  directory \<open>lib\<close> with three files, the second of which has a syntax error; the
  directory \<open>pkg\<close> with one file; the declaration \<open>var x float64\<close> as declaration 0.
\<close>

definition basic_Type :: "string \<Rightarrow> Type" where
  "basic_Type n = \<lparr>type_file = None, type_name = n, type_kind = BASIC, type_object = None\<rparr>"

definition example_tree :: "string \<Rightarrow> ast_File" where
  "example_tree n = \<lparr>ast_Name = n, ast_Decls = []\<rparr>"

definition example_env :: env where
  "example_env =
     \<lparr>BuiltinTypes = [(''int'', 0), (''string'', 1), (''float64'', 2), (''bool'', 3)],
      BuiltinValues =
        [(''true'', \<lparr>val_file = None, val_kind = kind_CONST, val_name = ''true'', val_typ = Some 3\<rparr>)],
      TypeToken = (\<lambda>k. if k = token_INT then Some 0
                       else if k = token_STRING then Some 1
                       else if k = token_FLOAT then Some 2
                       else None),
      path_Files = (\<lambda>p. if p = ''lib'' then [''lib/a.go'', ''lib/b.go'', ''lib/c.go'']
                        else if p = ''pkg'' then [''pkg/x.go'']
                        else []),
      parser_ParseFile =
        (\<lambda>f. if f = ''lib/a.go'' \<or> f = ''lib/c.go'' then (Some (example_tree ''lib''), None)
              else if f = ''lib/b.go'' then (Some (example_tree []), Some ''lib/b.go:1:1: expected package'')
              else if f = ''pkg/x.go'' then (Some (example_tree ''pkg''), None)
              else (None, Some ''no such file'')),
      strconv_Atoi = (\<lambda>s. 0),
      Decls = (\<lambda>i. if i = 0 then Some (ValueSpec [''x''] (Some (Ident ''float64'' None)) [])
                     else None)\<rparr>"

definition example_pkg :: Package where
  "example_pkg =
     (NewPackage ''main'')\<lparr>pkg_Files := [(''m'', 0), (''n'', 1)],
                           pkg_Imports := [(''lib'', 1), (''pkg'', 2)]\<rparr>"

definition example_world :: world where
  "example_world =
     \<lparr>packages = [example_pkg, NewPackage ''lib'', NewPackage ''pkg''],
      files = [(NewFile 0 ''m'')\<lparr>file_i := [(''lib'', 0), (''pkg'', 1)]\<rparr>, NewFile 0 ''n''],
      imps = [\<lparr>imp_file = 0, imp_name = ''lib'', imp_pkg = Some 1\<rparr>,
              \<lparr>imp_file = 0, imp_name = ''pkg'', imp_pkg = Some 2\<rparr>],
      types = [basic_Type ''int'', basic_Type ''string'', basic_Type ''float64'', basic_Type ''bool''],
      funcs = [],
      vals = []\<rparr>"

text \<open>
  The state after \<open>Parse\<close> has failed on \<open>lib\<close>: the files \<open>a\<close> and \<open>b\<close> are in the
  package, \<open>c\<close> is not.
\<close>

definition lib_half_parsed :: world where
  "lib_half_parsed =
     example_world
       \<lparr>packages := [example_pkg,
                     (NewPackage ''lib'')\<lparr>pkg_Files := [(''a'', 2), (''b'', 3)]\<rparr>,
                     NewPackage ''pkg''],
        files := files example_world @
                   [(NewFile 1 ''a'')\<lparr>file_t := Some (example_tree ''lib'')\<rparr>,
                    (NewFile 1 ''b'')\<lparr>file_t := Some (example_tree [])\<rparr>]\<rparr>"

text \<open>The state after \<open>Parse\<close> has loaded \<open>pkg\<close>.\<close>

definition pkg_parsed :: world where
  "pkg_parsed =
     example_world
       \<lparr>packages := [example_pkg, NewPackage ''lib'',
                     (NewPackage ''pkg'')\<lparr>pkg_Name := ''pkg'', pkg_Files := [(''x'', 2)]\<rparr>],
        files := files example_world @ [(NewFile 2 ''x'')\<lparr>file_t := Some (example_tree ''pkg'')\<rparr>]\<rparr>"

text \<open>The identifier \<open>x\<close>, linked to its declaration \<open>var x float64\<close>.\<close>

definition x_ident :: expr where
  "x_ident = Ident ''x'' (Some (Obj Var (ValueSpecDecl 0)))"

text \<open>The state after \<open>var x float64\<close> has been inspected in file 0.\<close>

definition x_inspected :: world where
  "x_inspected =
     example_world
       \<lparr>packages := [example_pkg\<lparr>pkg_Values := [(''x'', 0)]\<rparr>, NewPackage ''lib'', NewPackage ''pkg''],
        vals := [\<lparr>val_file = Some 0, val_kind = kind_VAR, val_name = ''x'', val_typ = Some 2\<rparr>]\<rparr>"

text \<open>The state after the function literal \<open>func() (int, string)\<close> has been evaluated.\<close>

definition func_lit_world :: world where
  "func_lit_world =
     example_world
       \<lparr>funcs := [\<lparr>func_file = Some 0, func_typ = Some 4, func_in = None, func_out = None\<rparr>],
        types := types example_world @
                   [\<lparr>type_file = Some 0, type_name = [], type_kind = FUNC,
                     type_object = Some (FuncObj 0)\<rparr>]\<rparr>"

text \<open>The types that \<open>[]int{}\<close> and \<open>map[string]int{}\<close> evaluate to, allocated at an address.\<close>

definition slice_of_int :: "addr \<Rightarrow> Type" where
  "slice_of_int a =
     \<lparr>type_file = Some 0, type_name = ''[]int'', type_kind = SLICE,
      type_object = Some (ArrayObj (Some 0) 0 a)\<rparr>"

definition map_string_int :: "addr \<Rightarrow> Type" where
  "map_string_int a =
     \<lparr>type_file = Some 0, type_name = ''map[string]int'', type_kind = MAP,
      type_object = Some (MapObj (Some 1) (Some 0) a)\<rparr>"

section \<open>Basic facts\<close>

lemmas example_defs = example_env_def example_world_def example_pkg_def example_tree_def
  basic_Type_def NewPackage_def NewFile_def lib_half_parsed_def slice_of_int_def
  map_string_int_def pkg_parsed_def x_ident_def x_inspected_def func_lit_world_def

lemmas container_defs = data_Get_def data_Add_def data_List_def data_Len_def data_Index_def
  at_def file_pkg_def set_pkg_def Import_Get_def Types_Get_def value_typ_def

lemma base_name_examples:
  "base_name ''lib/a.go'' = Some ''a''"
  "base_name ''lib/b.go'' = Some ''b''"
  "base_name ''lib/c.go'' = Some ''c''"
  "base_name ''pkg/x.go'' = Some ''x''"
  by (simp_all add: base_name_def LastIndex_def slice_def)

lemma data_Get_Add: "data_Get (data_Add d k a) k' = (if k' = k then Some a else data_Get d k')"
  by (simp add: data_Get_def data_Add_def)

lemma at_Some_iff: "at xs a = Some x \<longleftrightarrow> a < length xs \<and> xs ! a = x"
  by (auto simp: at_def)

lemma file_pkg_Some_iff:
  "file_pkg w f = Some (pa, P) \<longleftrightarrow>
     f < length (files w) \<and> pa = file_p (files w ! f) \<and> pa < length (packages w) \<and> P = packages w ! pa"
  by (auto simp: file_pkg_def at_def split: option.splits)

lemma Split_not_Nil: "Split s c \<noteq> []"
  by (induction s) (auto split: list.splits)

lemma length_Split: "length (Split s c) = Suc (count_list s c)"
  by (induction s) (auto simp: Split_not_Nil split: list.splits)

lemma qualified_iff: "Suc 0 < length (Split name c) \<longleftrightarrow> c \<in> set name"
  by (simp add: length_Split count_list_0_iff flip: neq0_conv)

section \<open>Pointer types are interned\<close>

text \<open>
  C1. For an element Type \<open>t\<close>, \<open>typePointer\<close> returns a pointer Type \<open>r\<close>, and a second
  request, from the same file or from another file \<open>f'\<close> of the same package, returns the
  same instance \<open>r\<close> and changes nothing. When the name \<open>*T\<close> is already in the package's
  Types table the first request changes nothing either; otherwise \<open>r\<close> is a newly
  allocated POINTER Type with element \<open>t\<close>, added to the table under \<open>*T\<close>.
\<close>

theorem typePointer_interned:
  assumes "file_pkg w f = Some (pa, P)"
    and "file_pkg w f' = Some (pa, P)"
    and "at (types w) t = Some T"
  shows "\<exists>w1 r. typePointer f w (Some t) = Inr (w1, Some r)
           \<and> typePointer f w1 (Some t) = Inr (w1, Some r)
           \<and> typePointer f' w1 (Some t) = Inr (w1, Some r)
           \<and> (case data_Get (pkg_Types P) (''*'' @ type_name T) of
                 Some r0 \<Rightarrow> r = r0 \<and> w1 = w
               | None \<Rightarrow>
                   r = length (types w)
                   \<and> types w1 = types w @
                        [\<lparr>type_file = type_file T, type_name = ''*'' @ type_name T,
                          type_kind = POINTER, type_object = Some (PointerObj t r)\<rparr>]
                   \<and> (\<exists>P1. file_pkg w1 f = Some (pa, P1)
                          \<and> pkg_Types P1 = data_Add (pkg_Types P) (''*'' @ type_name T) r))"
proof (cases "data_Get (pkg_Types P) (''*'' @ type_name T)")
  case (Some r0)
  with assms show ?thesis
    by (simp add: typePointer_def Let_def)
next
  case None
  let ?r = "length (types w)"
  let ?n = "''*'' @ type_name T"
  let ?w1 = "set_pkg (w\<lparr>types := types w @
                        [\<lparr>type_file = type_file T, type_name = ?n,
                          type_kind = POINTER, type_object = Some (PointerObj t ?r)\<rparr>]\<rparr>) pa
                (P\<lparr>pkg_Types := data_Add (pkg_Types P) ?n ?r\<rparr>)"
  have first: "typePointer f w (Some t) = Inr (?w1, Some ?r)"
    using assms None by (simp add: typePointer_def Let_def)
  have t1: "at (types ?w1) t = Some T"
    using assms(3) by (simp add: set_pkg_def at_Some_iff nth_append)
  have p1: "file_pkg ?w1 f = Some (pa, P\<lparr>pkg_Types := data_Add (pkg_Types P) ?n ?r\<rparr>)"
    using assms(1) by (simp add: file_pkg_Some_iff set_pkg_def)
  have p1': "file_pkg ?w1 f' = Some (pa, P\<lparr>pkg_Types := data_Add (pkg_Types P) ?n ?r\<rparr>)"
    using assms(2) by (simp add: file_pkg_Some_iff set_pkg_def)
  have second: "typePointer f ?w1 (Some t) = Inr (?w1, Some ?r)"
    using t1 p1 by (simp add: typePointer_def data_Get_Add Let_def)
  have third: "typePointer f' ?w1 (Some t) = Inr (?w1, Some ?r)"
    using t1 p1' by (simp add: typePointer_def data_Get_Add Let_def)
  have tys: "types ?w1 = types w @
                        [\<lparr>type_file = type_file T, type_name = ?n,
                          type_kind = POINTER, type_object = Some (PointerObj t ?r)\<rparr>]"
    by (simp add: set_pkg_def)
  show ?thesis
    using first second third p1 tys None by simp
qed

theorem typePointer_interned_witness:
  "file_pkg example_world 0 = Some (0, example_pkg)
   \<and> file_pkg example_world 1 = Some (0, example_pkg)
   \<and> at (types example_world) 0 = Some (basic_Type ''int'')
   \<and> (\<exists>w1. typePointer 0 example_world (Some 0) = Inr (w1, Some 4)
           \<and> typePointer 0 w1 (Some 0) = Inr (w1, Some 4)
           \<and> typePointer 1 w1 (Some 0) = Inr (w1, Some 4))"
proof -
  have h1: "file_pkg example_world 0 = Some (0, example_pkg)"
    by (simp add: file_pkg_def at_def example_world_def NewFile_def)
  have h2: "file_pkg example_world 1 = Some (0, example_pkg)"
    by (simp add: file_pkg_def at_def example_world_def NewFile_def)
  have h3: "at (types example_world) 0 = Some (basic_Type ''int'')"
    by (simp add: at_def example_world_def)
  have g: "data_Get (pkg_Types example_pkg) (CHR ''*'' # type_name (basic_Type ''int'')) = None"
    by (simp add: data_Get_def example_pkg_def NewPackage_def)
  have l: "length (types example_world) = 4"
    by (simp add: example_world_def)
  show ?thesis
    using typePointer_interned [OF h1 h2 h3] h1 h2 h3 by (auto simp: g l)
qed

section \<open>Slice, array and map types are not interned\<close>

text \<open>
  C2. The claim fails for slices, arrays and maps: \<open>TypeArray\<close> and \<open>TypeMap\<close> allocate a
  new Type at every evaluation and neither look the name up nor add it to the package's
  Types table. In the example state, evaluating \<open>[]int\<close> twice gives the two distinct
  instances 4 and 5, evaluating \<open>map[string]int\<close> twice gives 4 and 5 as well, and the
  Types table of the package is as empty as before.
\<close>

theorem TypeArray_TypeMap_allocate_anew:
  "TypeArray I example_env 0 example_world None (Ident ''int'' None)
     = Inr (example_world\<lparr>types := types example_world @ [slice_of_int 4]\<rparr>, Some 4)
   \<and> TypeArray I example_env 0
        (example_world\<lparr>types := types example_world @ [slice_of_int 4]\<rparr>) None (Ident ''int'' None)
     = Inr (example_world\<lparr>types := types example_world @ [slice_of_int 4, slice_of_int 5]\<rparr>, Some 5)
   \<and> TypeMap I example_env 0 example_world (Ident ''string'' None) (Ident ''int'' None)
     = Inr (example_world\<lparr>types := types example_world @ [map_string_int 4]\<rparr>, Some 4)
   \<and> TypeMap I example_env 0
        (example_world\<lparr>types := types example_world @ [map_string_int 4]\<rparr>)
        (Ident ''string'' None) (Ident ''int'' None)
     = Inr (example_world\<lparr>types := types example_world @ [map_string_int 4, map_string_int 5]\<rparr>, Some 5)
   \<and> TypeExpr I example_env 0 example_world (CompositeLit (Some (ArrayType None (Ident ''int'' None))))
     = TypeArray I example_env 0 example_world None (Ident ''int'' None)
   \<and> TypeExpr I example_env 0 example_world
        (CompositeLit (Some (MapType (Ident ''string'' None) (Ident ''int'' None))))
     = TypeMap I example_env 0 example_world (Ident ''string'' None) (Ident ''int'' None)
   \<and> pkg_Types (packages example_world ! 0) = []"
  by (simp add: TypeArray_def TypeMap_def TypeIdent_def GetType_def array_type_def map_type_def
        example_defs container_defs Let_def)

section \<open>A file that is already present ends the load\<close>

text \<open>
  C4. The claim fails: at the first enumerated file whose name is in the Files table,
  \<open>Parse\<close> returns, and the files after it are not looked at. In the state that the failed
  \<open>Parse\<close> of \<open>lib\<close> leaves, \<open>lib/c.go\<close> is enumerated and its name \<open>c\<close> is not in the
  Files table, yet a further \<open>Parse\<close> returns without an error and without a change:
  \<open>c\<close> is neither parsed nor added.
\<close>

theorem Parse_returns_at_present_file:
  "Parse example_env 1 example_world
     = Inr (lib_half_parsed, Some (ParseError ''lib/b.go:1:1: expected package''))
   \<and> path_Files example_env (pkg_Path (packages lib_half_parsed ! 1))
       = [''lib/a.go'', ''lib/b.go'', ''lib/c.go'']
   \<and> base_name ''lib/c.go'' = Some ''c''
   \<and> data_Get (pkg_Files (packages lib_half_parsed ! 1)) ''c'' = None
   \<and> parser_ParseFile example_env ''lib/c.go'' = (Some (example_tree ''lib''), None)
   \<and> Parse example_env 1 lib_half_parsed = Inr (lib_half_parsed, None)"
  by (simp add: Parse_def base_name_examples example_defs container_defs Let_def)

section \<open>An import without an alias\<close>

text \<open>
  C9. The claim fails for an import that is written without an alias, such as
  \<open>import "fmt"\<close>: its \<open>Name\<close> is nil, \<open>InspectImports\<close> reads \<open>i.Name.Name\<close> and panics;
  no Import is created and no name is derived from the path. With an alias the Import
  is created under the alias and added to the file's Import table.
\<close>

theorem InspectImports_without_alias_panics:
  "InspectImports 0 [ImportSpec None ''\"fmt\"''] example_world = Inl Panic
   \<and> (case InspectImports 0 [ImportSpec (Some ''f'') ''\"fmt\"''] example_world of
        Inr (w, err) \<Rightarrow>
          err = None
          \<and> data_Get (file_i (files w ! 0)) ''f'' = Some 2
          \<and> imps w ! 2 = \<lparr>imp_file = 0, imp_name = ''f'', imp_pkg = Some 3\<rparr>
          \<and> packages w ! 3 = NewPackage ''\"fmt\"''
      | Inl e \<Rightarrow> False)"
  by (simp add: example_defs container_defs Let_def)

section \<open>A file that fails to parse\<close>

lemma upt_shift: "[a ..< a + Suc k] = a # [Suc a ..< Suc a + k]"
  by (simp add: upt_conv_Cons)

lemma Parse_files_stops_at_error:
  assumes "at (packages w) p = Some P"
    and "map base_name pre = map Some ns"
    and "base_name bad = Some nb"
    and "distinct (ns @ [nb])"
    and "\<forall>n\<in>set (ns @ [nb]). data_Get (pkg_Files P) n = None"
    and "\<forall>f\<in>set pre. snd (parser_ParseFile E f) = None"
    and "snd (parser_ParseFile E bad) = Some msg"
  shows "Parse_files E p w (pre @ bad # post) =
           Inr (w\<lparr>packages := (packages w)
                     [p := P\<lparr>pkg_Files := pkg_Files P @
                              zip (ns @ [nb]) [length (files w) ..< length (files w) + Suc (length ns)]\<rparr>],
                   files := files w @
                     map2 (\<lambda>n f. (NewFile p n)\<lparr>file_t := fst (parser_ParseFile E f)\<rparr>)
                       (ns @ [nb]) (pre @ [bad])\<rparr>,
                Some (Some (ParseError msg)))"
  using assms
proof (induction pre arbitrary: w P ns)
  case Nil
  then show ?case
    by (simp add: Let_def set_pkg_def data_Add_def case_prod_beta)
next
  case (Cons f pre)
  then obtain n ns' where ns: "ns = n # ns'" and bn: "base_name f = Some n"
    and rest: "map base_name pre = map Some ns'"
    by (cases ns) auto
  let ?P2 = "P\<lparr>pkg_Files := data_Add (pkg_Files P) n (length (files w))\<rparr>"
  let ?w3 = "w\<lparr>packages := (packages w)[p := ?P2],
               files := files w @ [(NewFile p n)\<lparr>file_t := fst (parser_ParseFile E f)\<rparr>]\<rparr>"
  have fresh: "data_Get (pkg_Files P) n = None"
    using Cons.prems(5) ns by simp
  have ok: "snd (parser_ParseFile E f) = None"
    using Cons.prems(6) by simp
  have step: "Parse_files E p w ((f # pre) @ bad # post) = Parse_files E p ?w3 (pre @ bad # post)"
    using Cons.prems(1) bn fresh ok
    by (simp add: Let_def set_pkg_def case_prod_beta)
  have p3: "at (packages ?w3) p = Some ?P2"
    using Cons.prems(1) by (simp add: at_Some_iff)
  have fresh3: "\<forall>m\<in>set (ns' @ [nb]). data_Get (pkg_Files ?P2) m = None"
    using Cons.prems(4,5) ns by (auto simp: data_Get_Add)
  have d3: "distinct (ns' @ [nb])"
    using Cons.prems(4) ns by simp
  have ok3: "\<forall>f\<in>set pre. snd (parser_ParseFile E f) = None"
    using Cons.prems(6) by simp
  note IH = Cons.IH [OF p3 rest Cons.prems(3) d3 fresh3 ok3 Cons.prems(7)]
  have upt: "[length (files w) ..< length (files w) + Suc (length ns)]
            = length (files w) # [length (files ?w3) ..< length (files ?w3) + Suc (length ns')]"
    using upt_shift [of "length (files w)" "Suc (length ns')"] ns by simp
  show ?case
    unfolding step IH using ns upt by (simp add: data_Add_def)
qed

text \<open>
  C3, as stated, fails: when \<open>lib/b.go\<close> fails to parse, \<open>Parse\<close> returns the ParseError,
  but the Files table of the package, empty before, now holds the sibling \<open>a\<close> with its
  tree and the failed \<open>b\<close>. Nothing is discarded.
\<close>

theorem Parse_failure_leaves_files:
  "Parse example_env 1 example_world
     = Inr (lib_half_parsed, Some (ParseError ''lib/b.go:1:1: expected package''))
   \<and> pkg_Files (packages example_world ! 1) = []
   \<and> pkg_Files (packages lib_half_parsed ! 1) = [(''a'', 2), (''b'', 3)]
   \<and> files lib_half_parsed ! 2 = (NewFile 1 ''a'')\<lparr>file_t := Some (example_tree ''lib'')\<rparr>
   \<and> lib_half_parsed \<noteq> example_world"
  by (simp add: Parse_def base_name_examples example_defs container_defs Let_def)

text \<open>
  C3, amended. When the enumerated files are \<open>pre @ bad # post\<close>, none of \<open>pre\<close> and \<open>bad\<close>
  is in the Files table yet, the files of \<open>pre\<close> parse and \<open>bad\<close> does not, then \<open>Parse\<close>
  returns the ParseError of \<open>bad\<close>; the files of \<open>pre\<close> and \<open>bad\<close> itself have been added
  to the package and to its Files table and stay there, the files of \<open>post\<close> are not looked
  at, and the package name is not set. \<open>Inspect\<close> passes the error on and returns no
  Package.
\<close>

theorem Parse_error_keeps_added_files:
  assumes "at (packages w) p = Some P"
    and "path_Files E (pkg_Path P) = pre @ bad # post"
    and "map base_name pre = map Some ns"
    and "base_name bad = Some nb"
    and "distinct (ns @ [nb])"
    and "\<forall>n\<in>set (ns @ [nb]). data_Get (pkg_Files P) n = None"
    and "\<forall>f\<in>set pre. snd (parser_ParseFile E f) = None"
    and "snd (parser_ParseFile E bad) = Some msg"
  shows "Parse E p w =
           Inr (w\<lparr>packages := (packages w)
                     [p := P\<lparr>pkg_Files := pkg_Files P @
                              zip (ns @ [nb]) [length (files w) ..< length (files w) + Suc (length ns)]\<rparr>],
                   files := files w @
                     map2 (\<lambda>n f. (NewFile p n)\<lparr>file_t := fst (parser_ParseFile E f)\<rparr>)
                       (ns @ [nb]) (pre @ [bad])\<rparr>,
                Some (ParseError msg))
         \<and> (\<forall>n PkgPath w0 w1 err.
               Parse E (length (packages w0)) (w0\<lparr>packages := packages w0 @ [NewPackage PkgPath]\<rparr>)
                 = Inr (w1, Some err)
               \<longrightarrow> Inspect n E PkgPath w0 = Inr (w1, None, Some err))"
proof -
  have "Parse_files E p w (path_Files E (pkg_Path P)) =
           Inr (w\<lparr>packages := (packages w)
                     [p := P\<lparr>pkg_Files := pkg_Files P @
                              zip (ns @ [nb]) [length (files w) ..< length (files w) + Suc (length ns)]\<rparr>],
                   files := files w @
                     map2 (\<lambda>n f. (NewFile p n)\<lparr>file_t := fst (parser_ParseFile E f)\<rparr>)
                       (ns @ [nb]) (pre @ [bad])\<rparr>,
                Some (Some (ParseError msg)))"
    unfolding assms(2) using assms(1,3-8) by (rule Parse_files_stops_at_error)
  then have "Parse E p w =
           Inr (w\<lparr>packages := (packages w)
                     [p := P\<lparr>pkg_Files := pkg_Files P @
                              zip (ns @ [nb]) [length (files w) ..< length (files w) + Suc (length ns)]\<rparr>],
                   files := files w @
                     map2 (\<lambda>n f. (NewFile p n)\<lparr>file_t := fst (parser_ParseFile E f)\<rparr>)
                       (ns @ [nb]) (pre @ [bad])\<rparr>,
                Some (ParseError msg))"
    using assms(1) by (simp add: Parse_def)
  moreover have "\<forall>n PkgPath w0 w1 err.
               Parse E (length (packages w0)) (w0\<lparr>packages := packages w0 @ [NewPackage PkgPath]\<rparr>)
                 = Inr (w1, Some err)
               \<longrightarrow> Inspect n E PkgPath w0 = Inr (w1, None, Some err)"
    by (simp add: Inspect_def Let_def)
  ultimately show ?thesis by blast
qed

theorem Parse_error_keeps_added_files_witness:
  "Parse example_env 1 example_world
     = Inr (lib_half_parsed, Some (ParseError ''lib/b.go:1:1: expected package''))
   \<and> data_Get (pkg_Files (packages lib_half_parsed ! 1)) ''a'' = Some 2
   \<and> data_Get (pkg_Files (packages lib_half_parsed ! 1)) ''b'' = Some 3
   \<and> data_Get (pkg_Files (packages lib_half_parsed ! 1)) ''c'' = None
   \<and> pkg_Name (packages lib_half_parsed ! 1) = []"
proof -
  have h1: "at (packages example_world) 1 = Some (NewPackage ''lib'')"
    by (simp add: example_defs container_defs)
  have h2: "path_Files example_env (pkg_Path (NewPackage ''lib'')) = [''lib/a.go''] @ ''lib/b.go'' # [''lib/c.go'']"
    by (simp add: example_defs)
  have h3: "map base_name [''lib/a.go''] = map Some [''a'']"
    by (simp add: base_name_examples)
  have h4: "base_name ''lib/b.go'' = Some ''b''"
    by (simp add: base_name_examples)
  have h5: "distinct ([''a''] @ [''b''])"
    by simp
  have h6: "\<forall>n\<in>set ([''a''] @ [''b'']). data_Get (pkg_Files (NewPackage ''lib'')) n = None"
    by (simp add: example_defs container_defs)
  have h7: "\<forall>f\<in>set [''lib/a.go'']. snd (parser_ParseFile example_env f) = None"
    by (simp add: example_defs)
  have h8: "snd (parser_ParseFile example_env ''lib/b.go'') = Some ''lib/b.go:1:1: expected package''"
    by (simp add: example_defs)
  have w: "example_world\<lparr>packages := (packages example_world)
                     [1 := (NewPackage ''lib'')\<lparr>pkg_Files := pkg_Files (NewPackage ''lib'') @
                              zip ([''a''] @ [''b'']) [length (files example_world) ..< length (files example_world) + Suc (length [''a''])]\<rparr>],
                   files := files example_world @
                     map2 (\<lambda>n f. (NewFile 1 n)\<lparr>file_t := fst (parser_ParseFile example_env f)\<rparr>)
                       ([''a''] @ [''b'']) ([''lib/a.go''] @ [''lib/b.go''])\<rparr> = lib_half_parsed"
    by (simp add: example_defs upt_rec)
  show ?thesis
    using Parse_error_keeps_added_files [OF h1 h2 h3 h4 h5 h6 h7 h8] unfolding w
    by (simp add: example_defs container_defs)
qed

section \<open>The type of a binary expression\<close>

text \<open>
  C7, as stated, fails for a parenthesized literal on the left: \<open>(1) + 2.5\<close> has a left
  operand that is not itself a basic literal, its Type is the one of the INT literal, and
  \<open>TypeBinary\<close> returns the Type of the right operand.
\<close>

theorem TypeBinary_paren_literal_left:
  "\<not> is_BasicLit (ParenExpr (BasicLit token_INT ''1''))
   \<and> TypeExpr (InspectValue 0 example_env) example_env 0 example_world
        (ParenExpr (BasicLit token_INT ''1'')) = Inr (example_world, Some 0)
   \<and> TypeExpr (InspectValue 0 example_env) example_env 0 example_world
        (BasicLit token_FLOAT ''2.5'') = Inr (example_world, Some 2)
   \<and> TypeBinary (InspectValue 0 example_env) example_env 0 example_world
        (ParenExpr (BasicLit token_INT ''1'')) (BasicLit token_FLOAT ''2.5'')
      = Inr (example_world, Some 2)
   \<and> TypeExpr (InspectValue 0 example_env) example_env 0 example_world
        (BinaryExpr (ParenExpr (BasicLit token_INT ''1'')) token_ADD (BasicLit token_FLOAT ''2.5''))
      = Inr (example_world, Some 2)"
  by (simp add: TypeBinary_def example_env_def)

text \<open>
  C7, amended. \<open>TypeBinary\<close> returns the Type of the right operand when the left operand
  is a basic literal or a basic literal in one pair of parentheses, and the Type of the
  left operand otherwise; \<open>TypeExpr\<close> of a binary expression is \<open>TypeBinary\<close> of its
  operands.
\<close>

theorem TypeBinary_left_unless_literal:
  "TypeBinary I E f w X Y =
     (if is_BasicLit X \<or> (\<exists>p. X = ParenExpr p \<and> is_BasicLit p)
      then TypeExpr I E f w Y
      else TypeExpr I E f w X)
   \<and> TypeExpr I E f w (BinaryExpr X Op Y) = TypeBinary I E f w X Y"
  by (cases X) (auto simp: TypeBinary_def)

lemma InspectValues_x_example:
  "InspectValues I example_env 0 kind_VAR [ValueSpec [''x''] (Some (Ident ''float64'' None)) []]
     example_world = Inr (x_inspected, None)"
  by (simp add: InspectValues_def TypeIdent_def GetType_def set_val_typ_def
        example_defs container_defs Let_def)

lemma TypeExpr_x_example:
  "TypeExpr (InspectValue (Suc 0) example_env) example_env 0 example_world x_ident
     = Inr (x_inspected, Some 2)"
proof -
  have bv: "data_Get (BuiltinValues example_env) ''x'' = None"
    by (simp add: example_env_def data_Get_def)
  have gt: "GetType example_env 0 example_world ''x'' = Inr (example_world, None, None)"
    by (simp add: GetType_def example_defs container_defs)
  have dc: "Decls example_env 0 = Some (ValueSpec [''x''] (Some (Ident ''float64'' None)) [])"
    by (simp add: example_env_def)
  have vt: "value_typ x_inspected 0 ''x'' = Some (Some 2)"
    by (simp add: example_defs container_defs)
  show ?thesis
    by (simp add: x_ident_def TypeIdent_def ident_value_def bv gt dc vt InspectValues_x_example)
qed

theorem TypeBinary_left_unless_literal_witness:
  "TypeBinary (InspectValue (Suc 0) example_env) example_env 0 example_world
     x_ident (BasicLit token_INT ''1'') = Inr (x_inspected, Some 2)
   \<and> TypeBinary (InspectValue (Suc 0) example_env) example_env 0 example_world
        (BasicLit token_INT ''1'') (BasicLit token_FLOAT ''2.5'') = Inr (example_world, Some 2)"
proof -
  have l: "TypeExpr (InspectValue (Suc 0) example_env) example_env 0 example_world
             (BasicLit token_FLOAT ''2.5'') = Inr (example_world, Some 2)"
    by (simp add: example_env_def)
  have nl: "\<not> is_BasicLit x_ident" "\<And>p. x_ident \<noteq> ParenExpr p"
    by (simp_all add: x_ident_def)
  show ?thesis
    using TypeExpr_x_example l nl
      TypeBinary_left_unless_literal [of "InspectValue (Suc 0) example_env" example_env 0 example_world
        x_ident "BasicLit token_INT ''1''", THEN conjunct1]
      TypeBinary_left_unless_literal [of "InspectValue (Suc 0) example_env" example_env 0 example_world
        "BasicLit token_INT ''1''" "BasicLit token_FLOAT ''2.5''", THEN conjunct1]
    by simp
qed

section \<open>The not-a-type error\<close>




lemma Parse_files_error_is_ParseError:
  "Parse_files E p w fs = Inr (w', Some (Some err)) \<Longrightarrow> \<exists>msg. err = ParseError msg"
  by (induction fs arbitrary: w)
     (auto simp: Let_def case_prod_beta split: option.splits if_splits)

lemma Parse_error_is_ParseError:
  "Parse E p w = Inr (w', Some err) \<Longrightarrow> \<exists>msg. err = ParseError msg"
  by (auto simp: Parse_def dest: Parse_files_error_is_ParseError
           split: option.splits sum.splits prod.splits if_splits)

text \<open>
  C8. For a file \<open>f\<close> of a package, \<open>GetType\<close> returns \<open>ErrNotType\<close> exactly when the name
  is in neither the builtin types nor the package's Types table, contains a period, and
  either no Import is bound to the part before the period, or the part after it is not in
  the Types table of the imported package, \<open>Parse\<close> of that package returns without an
  error, and the name is still not there. A name without a period that is in neither
  table gives nil and no error.
\<close>

theorem GetType_ErrNotType_iff:
  assumes "file_pkg w f = Some (pa, P)"
  shows "(GetType E f w name = Inr (w', t, Some ErrNotType) \<longleftrightarrow>
            t = None
            \<and> data_Get (BuiltinTypes E) name = None
            \<and> data_Get (pkg_Types P) name = None
            \<and> CHR ''.'' \<in> set name
            \<and> (case Import_Get w f (Split name CHR ''.'' ! 0) of
                  None \<Rightarrow> w' = w
                | Some imp \<Rightarrow>
                    (\<exists>ip. Option.bind (at (imps w) imp) imp_pkg = Some ip
                        \<and> at (packages w) ip \<noteq> None
                        \<and> Types_Get w ip (Split name CHR ''.'' ! 1) = None
                        \<and> Parse E ip w = Inr (w', None)
                        \<and> Types_Get w' ip (Split name CHR ''.'' ! 1) = None)))
         \<and> (data_Get (BuiltinTypes E) name = None \<and> data_Get (pkg_Types P) name = None
              \<and> CHR ''.'' \<notin> set name
              \<longrightarrow> GetType E f w name = Inr (w, None, None))"
  using assms
  by (auto simp: GetType_def Let_def qualified_iff dest: Parse_error_is_ParseError
           split: option.splits sum.splits prod.splits)

lemma Parse_pkg_example: "Parse example_env 2 example_world = Inr (pkg_parsed, None)"
  by (simp add: Parse_def base_name_examples example_defs container_defs Let_def)

theorem GetType_ErrNotType_iff_witness:
  "file_pkg example_world 0 = Some (0, example_pkg)
   \<and> GetType example_env 0 example_world ''nope.Foo'' = Inr (example_world, None, Some ErrNotType)
   \<and> GetType example_env 0 example_world ''pkg.Foo'' = Inr (pkg_parsed, None, Some ErrNotType)
   \<and> GetType example_env 0 example_world ''Foo'' = Inr (example_world, None, None)"
proof -
  have h: "file_pkg example_world 0 = Some (0, example_pkg)"
    by (simp add: example_defs container_defs)
  note T = GetType_ErrNotType_iff [OF h, of example_env]
  have b1: "\<And>n. data_Get (BuiltinTypes example_env) (n @ ''Foo'') = None"
    by (simp add: example_defs container_defs)
  have b2: "\<And>n. data_Get (pkg_Types example_pkg) n = None"
    by (simp add: example_defs container_defs)
  have n4: "Import_Get example_world 0 (Split ''nope.Foo'' CHR ''.'' ! 0) = None"
    by (simp add: Import_Get_def example_defs container_defs)
  have a4: "Import_Get example_world 0 (Split ''pkg.Foo'' CHR ''.'' ! 0) = Some 1"
    by (simp add: Import_Get_def example_defs container_defs)
  have a5: "Option.bind (at (imps example_world) 1) imp_pkg = Some 2"
    by (simp add: example_defs container_defs)
  have a6: "at (packages example_world) 2 \<noteq> None"
    by (simp add: example_defs container_defs)
  have a7: "Types_Get example_world 2 (Split ''pkg.Foo'' CHR ''.'' ! 1) = None"
    by (simp add: Types_Get_def example_defs container_defs)
  have a9: "Types_Get pkg_parsed 2 (Split ''pkg.Foo'' CHR ''.'' ! 1) = None"
    by (simp add: Types_Get_def pkg_parsed_def example_defs container_defs)
  have 1: "GetType example_env 0 example_world ''nope.Foo'' = Inr (example_world, None, Some ErrNotType)"
    using T [of "''nope.Foo''" example_world None] b1 [of "''nope.''"] b2 n4 by simp
  have 2: "GetType example_env 0 example_world ''pkg.Foo'' = Inr (pkg_parsed, None, Some ErrNotType)"
    using T [of "''pkg.Foo''" pkg_parsed None] b1 [of "''pkg.''"] b2 a4 a5 a6 a7 a9 Parse_pkg_example
    by simp
  have 3: "GetType example_env 0 example_world ''Foo'' = Inr (example_world, None, None)"
    using T [of "''Foo''"] b1 [of "[]"] b2 by simp
  show ?thesis using h 1 2 3 by simp
qed

section \<open>Types and Funcs are never overwritten\<close>

lemma grows_refl [simp]: "grows w w"
  by (simp add: grows_def)


lemma grows_same [simp]:
  "funcs w' = funcs w \<Longrightarrow> types w' = types w \<Longrightarrow> grows w w'"
  by (simp add: grows_def)

















section \<open>The parameters and results of a function literal\<close>








end
